theory Spec2Isabelle
  imports Complex_Main
begin

section \<open>The PDF renderer of the viewer (src/js/PDFRenderer.js)\<close>

text \<open>
  The class \<open>PDFRenderer\<close> is embedded with explicit state passing. One record holds
  the two registries of the class (\<open>documents\<close>, \<open>pageElements\<close>), the parts of the page
  it writes (the viewer element, the scroll offset of the container, the page-number
  input), the tab manager's tabs, and a trace of the calls that leave the class
  (console, alert, the shell's \<open>updateUI\<close>, \<open>scrollIntoView\<close>, the sidebar).
  An \<open>async\<close> method that its caller awaits is run to completion: every \<open>await\<close> in it
  is a sequential step, and a rejected promise or a thrown exception is the \<open>Inl\<close> branch
  of the result. The render that \<open>switchToTab\<close> starts without awaiting it stops at its
  first \<open>await\<close> and is kept in the state until it resumes.
  JavaScript numbers are rationals (the finite doubles are among them) and \<open>undefined\<close>
  is \<open>None\<close>. Comparisons and the centre of the container are computed exactly; the
  products that size the canvas are rounded as binary64 arithmetic rounds them.
\<close>

subsection \<open>Values of the PDF library and of the page\<close>

type_synonym tabId = nat
type_synonym bytes = "nat list"

datatype error = Error string | TypeError string

fun message :: "error \<Rightarrow> string" where
  "message (Error m) = m"
| "message (TypeError m) = m"

record viewport =
  vp_width :: rat
  vp_height :: rat
  vp_scale :: rat
  vp_rotation :: rat

text \<open>
  A page of the library: \<open>getViewport({scale, rotation})\<close>, the outcome of
  \<open>render({canvasContext, viewport}).promise\<close> (\<open>Some e\<close> when it rejects with \<open>e\<close>), and
  the outcome of \<open>getTextContent()\<close>.
\<close>

record pdf_page =
  getViewport :: "rat \<Rightarrow> rat \<Rightarrow> error + viewport"
  render :: "viewport \<Rightarrow> error option"
  getTextContent :: "error + string list"

text \<open>
  A document handle. \<open>handle\<close> is the identity of the object: two loads of the same bytes
  give two handles.
\<close>

record pdf_doc =
  handle :: nat
  numPages :: nat
  getPage :: "nat \<Rightarrow> error + pdf_page"

text \<open>
  What the class reads from outside: \<open>pdfjsLib.getDocument({data}).promise\<close> (the page
  count and the pages of the document, or the rejection), whether the library has
  \<open>renderTextLayer\<close>, the two text-layer renderers (the spans they add to the container,
  or the error they throw), and \<open>window.devicePixelRatio\<close>.
\<close>

record env =
  getDocument :: "bytes \<Rightarrow> error + (nat \<times> (nat \<Rightarrow> error + pdf_page))"
  has_renderTextLayer :: bool
  renderTextLayer :: "string list \<Rightarrow> viewport \<Rightarrow> error + string list"
  TextLayer_render :: "string list \<Rightarrow> viewport \<Rightarrow> error + string list"
  devicePixelRatio :: "rat option"

text \<open>
  A \<open>canvas.pdf-page\<close>: its \<open>width\<close> and \<open>height\<close> (the backing store, as the element
  holds them after the assignments of lines 90 and 91), its CSS size in pixels, the scale
  of the transform set on its context, and the viewport that \<open>page.render\<close> painted on it.
\<close>

record canvas =
  cv_width :: int
  cv_height :: int
  cv_style_width :: rat
  cv_style_height :: rat
  cv_transform :: rat
  cv_rendered :: viewport

record text_layer =
  tl_style_width :: rat
  tl_style_height :: rat
  tl_spans :: "string list"

record annotation_layer =
  al_style_width :: rat
  al_style_height :: rat
  al_page :: nat
  al_tab :: tabId

text \<open>
  A \<open>div.page-container\<close>: its \<open>dataset.page\<close>, its CSS size in pixels and its three
  children in the order they are appended (canvas, text layer, annotation layer).
\<close>

record page_container =
  pc_page :: nat
  pc_style_width :: rat
  pc_style_height :: rat
  pc_canvas :: canvas
  pc_text_layer :: text_layer
  pc_annotation_layer :: annotation_layer

datatype viewer_node = PageNode page_container | EmptyState

datatype effect =
    ConsoleError string error
  | Alert string
  | UpdateUI
  | ScrollIntoView page_container
  | SidebarUpdateCurrentPage tabId int

subsection \<open>The tab manager\<close>

text \<open>
  Modelled from the spec: the tab manager (\<open>app.tabManager\<close>) is not part of the sources.
  The spec gives the per-tab view state it owns (zoom factor, rotation angle, page layout
  mode, current page number, scroll offset) and its interface (tab lookup and update).
  \<open>getTab\<close> is the lookup in \<open>tabs\<close>, \<open>updateTab\<close> changes the fields of a tab that exists,
  and \<open>getActiveTab\<close> is the lookup of the active tab.
\<close>

record tab =
  zoom :: "rat option"
  rotation :: "rat option"
  pageLayout :: string
  currentPage :: "int option"
  scrollPosition :: "rat option"

definition updateTab :: "tabId \<Rightarrow> (tab \<Rightarrow> tab) \<Rightarrow> (tabId \<rightharpoonup> tab) \<Rightarrow> (tabId \<rightharpoonup> tab)" where
  "updateTab tabId f ts = (case ts tabId of None \<Rightarrow> ts | Some t \<Rightarrow> ts(tabId \<mapsto> f t))"

subsection \<open>The state\<close>

text \<open>
  \<open>destroyed\<close> lists the handles on which \<open>destroy()\<close> was called, and \<open>loaded\<close> is the
  history of the documents the library returned, each with the tab it was loaded for;
  \<open>nextHandle\<close> numbers the handles. \<open>scrollTimeout\<close> is the pending timer of the scroll
  listener (the time it is due and the tab its callback closes over), \<open>clock\<close> the time in
  milliseconds. \<open>inflight\<close> holds the renders that were started without \<open>await\<close> and
  have not resumed yet, oldest first, each with the tab and the document it closes over.
\<close>

record state =
  documents :: "tabId \<rightharpoonup> pdf_doc"
  pageElements :: "tabId \<rightharpoonup> page_container list"
  viewer :: "viewer_node list"
  two_page_layout :: bool
  scrollTop :: rat
  pageNumberInput :: int
  tabs :: "tabId \<rightharpoonup> tab"
  activeTab :: "tabId option"
  effects :: "effect list"
  destroyed :: "nat list"
  loaded :: "(tabId \<times> nat) list"
  nextHandle :: nat
  scrollTimeout :: "(nat \<times> tabId) option"
  clock :: nat
  inflight :: "(tabId \<times> pdf_doc) list"


text \<open>\<open>x || d\<close> on a number: \<open>undefined\<close> and \<open>0\<close> are falsy.\<close>

definition js_or :: "rat option \<Rightarrow> rat \<Rightarrow> rat" where
  "js_or x d = (case x of None \<Rightarrow> d | Some v \<Rightarrow> if v = 0 then d else v)"

definition js_or_int :: "int option \<Rightarrow> int \<Rightarrow> int" where
  "js_or_int x d = (case x of None \<Rightarrow> d | Some v \<Rightarrow> if v = 0 then d else v)"

definition log_effect :: "effect \<Rightarrow> state \<Rightarrow> state" where
  "log_effect e s = s\<lparr>effects := effects s @ [e]\<rparr>"

subsection \<open>constructor\<close>

text \<open>
  The registries start empty; the viewer and the container are the elements of the page
  as the shell built them, and no timer is pending.
\<close>

definition constructor :: "(tabId \<rightharpoonup> tab) \<Rightarrow> tabId option \<Rightarrow> viewer_node list \<Rightarrow> state" where
  "constructor app_tabs app_active viewer0 =
     \<lparr>documents = Map.empty, pageElements = Map.empty, viewer = viewer0,
      two_page_layout = False, scrollTop = 0, pageNumberInput = 1,
      tabs = app_tabs, activeTab = app_active, effects = [], destroyed = [],
      loaded = [], nextHandle = 0, scrollTimeout = None, clock = 0,
      inflight = []\<rparr>"

subsection \<open>createPageContainer\<close>

text \<open>
  The text layer (lines 108 to 130): the text content is fetched, then rendered with
  \<open>renderTextLayer\<close> when the library has it and with \<open>TextLayer.render\<close> otherwise.
\<close>

definition renderText :: "env \<Rightarrow> pdf_page \<Rightarrow> viewport \<Rightarrow> error + string list" where
  "renderText ev page vp =
     (case getTextContent page of
        Inl e \<Rightarrow> Inl e
      | Inr textContent \<Rightarrow>
          if has_renderTextLayer ev then renderTextLayer ev textContent vp
          else TextLayer_render ev textContent vp)"

text \<open>
  The \<open>try\<close>/\<open>catch\<close> around the text layer: an error is logged to the console and the
  text-layer container stays as it was created (a failed render adds no span).
\<close>

definition textLayerOf :: "env \<Rightarrow> pdf_page \<Rightarrow> viewport \<Rightarrow> state \<Rightarrow> text_layer \<times> state" where
  "textLayerOf ev page vp s =
     (case renderText ev page vp of
        Inl e \<Rightarrow>
          (\<lparr>tl_style_width = vp_width vp, tl_style_height = vp_height vp, tl_spans = []\<rparr>,
           log_effect (ConsoleError ''Error rendering text layer:'' e) s)
      | Inr spans \<Rightarrow>
          (\<lparr>tl_style_width = vp_width vp, tl_style_height = vp_height vp, tl_spans = spans\<rparr>,
           s))"

text \<open>
  Binary64 arithmetic for the products of lines 90 and 91. \<open>ilog2 n\<close> is the position of
  the leading bit of \<open>n\<close>, \<open>pow2 k\<close> is 2 to the power \<open>k\<close>, and \<open>binade a\<close> is the exponent
  \<open>e\<close> with \<open>pow2 e \<le> a < pow2 (e + 1)\<close> for a positive \<open>a\<close>.
\<close>

function ilog2 :: "int \<Rightarrow> int" where
  "ilog2 n = (if n < 2 then 0 else 1 + ilog2 (n div 2))"
  by pat_completeness auto
termination
  by (relation "measure nat") auto

declare ilog2.simps [simp del]

function pow2 :: "int \<Rightarrow> rat" where
  "pow2 k = (if k = 0 then 1 else if 0 < k then 2 * pow2 (k - 1) else pow2 (k + 1) / 2)"
  by pat_completeness auto
termination
  by (relation "measure (\<lambda>k. nat \<bar>k\<bar>)") auto

declare pow2.simps [simp del]

definition binade :: "rat \<Rightarrow> int" where
  "binade a =
     (if 1 \<le> a then ilog2 \<lfloor>a\<rfloor>
      else - (1 + ilog2 (\<lceil>1 / a\<rceil> - 1)))"

text \<open>Rounding to the nearest integer, a tie to the even one.\<close>

definition round_even :: "rat \<Rightarrow> int" where
  "round_even x =
     (let f = \<lfloor>x\<rfloor>; d = x - of_int f
      in if d < 1 / 2 then f else if 1 / 2 < d then f + 1 else if even f then f else f + 1)"

text \<open>
  The double nearest to \<open>x\<close> (53 significant bits, exponents from -1022 to 1023,
  subnormals below, ties to even), or \<open>None\<close> when \<open>x\<close> rounds to an infinity.
\<close>

definition to_double :: "rat \<Rightarrow> rat option" where
  "to_double x =
     (if x = 0 then Some 0
      else
        (let a = \<bar>x\<bar>;
             e = max (binade a) (- 1022);
             ulp = pow2 (e - 52);
             m = round_even (a / ulp)
         in if 1023 < e \<or> (e = 1023 \<and> 9007199254740992 \<le> m) then None
            else Some (if x < 0 then - (of_int m * ulp) else of_int m * ulp)))"

text \<open>\<open>x * y\<close> on two doubles: the exact product, rounded.\<close>

definition js_times :: "rat \<Rightarrow> rat \<Rightarrow> rat option" where
  "js_times x y = to_double (x * y)"

text \<open>
  The assignment of \<open>Math.floor\<close> of a product to \<open>canvas.width\<close> or \<open>canvas.height\<close>, an
  \<open>unsigned long\<close> that reflects the content attribute: the number is converted modulo
  \<open>2^32\<close> (an infinity to 0), and a result above 2147483647 is replaced by the default of
  the attribute (300 for the width, 150 for the height).
\<close>

definition canvasDimension :: "int \<Rightarrow> int option \<Rightarrow> int" where
  "canvasDimension dflt v =
     (let u = (case v of None \<Rightarrow> 0 | Some f \<Rightarrow> f mod 4294967296)
      in if u \<le> 2147483647 then u else dflt)"

definition mkCanvas :: "viewport \<Rightarrow> rat \<Rightarrow> canvas" where
  "mkCanvas vp dpr =
     \<lparr>cv_width = canvasDimension 300 (map_option floor (js_times (vp_width vp) dpr)),
      cv_height = canvasDimension 150 (map_option floor (js_times (vp_height vp) dpr)),
      cv_style_width = vp_width vp, cv_style_height = vp_height vp,
      cv_transform = dpr, cv_rendered = vp\<rparr>"

definition mkAnnotationLayer :: "viewport \<Rightarrow> nat \<Rightarrow> tabId \<Rightarrow> annotation_layer" where
  "mkAnnotationLayer vp pageNum tabId =
     \<lparr>al_style_width = vp_width vp, al_style_height = vp_height vp,
      al_page = pageNum, al_tab = tabId\<rparr>"

text \<open>
  \<open>createPageContainer(doc, pageNum, tabId)\<close>. The tab is looked up first and read after
  the page has arrived, so a missing tab is a \<open>TypeError\<close> at \<open>tab.zoom\<close>; \<open>getPage\<close>,
  \<open>getViewport\<close> and \<open>render\<close> are outside the \<open>try\<close>, so their errors leave the function.
\<close>

definition createPageContainer ::
  "env \<Rightarrow> pdf_doc \<Rightarrow> nat \<Rightarrow> tabId \<Rightarrow> state \<Rightarrow> (error + page_container) \<times> state" where
  "createPageContainer ev doc pageNum tabId s =
     (case getPage doc pageNum of
        Inl e \<Rightarrow> (Inl e, s)
      | Inr page \<Rightarrow>
          (case tabs s tabId of
             None \<Rightarrow> (Inl (TypeError ''Cannot read properties of undefined''), s)
           | Some tb \<Rightarrow>
               (let scale = js_or (zoom tb) 1;
                    rot = js_or (rotation tb) 0;
                    dpr = js_or (devicePixelRatio ev) 1
                in case getViewport page scale rot of
                     Inl e \<Rightarrow> (Inl e, s)
                   | Inr vp \<Rightarrow>
                       (case render page vp of
                          Some e \<Rightarrow> (Inl e, s)
                        | None \<Rightarrow>
                            (let (textLayerDiv, s') = textLayerOf ev page vp s
                             in (Inr \<lparr>pc_page = pageNum,
                                      pc_style_width = vp_width vp,
                                      pc_style_height = vp_height vp,
                                      pc_canvas = mkCanvas vp dpr,
                                      pc_text_layer = textLayerDiv,
                                      pc_annotation_layer =
                                        mkAnnotationLayer vp pageNum tabId\<rparr>, s'))))))"

subsection \<open>renderDocument\<close>

text \<open>
  The loop of lines 59 to 63: the pages are built one after the other from \<open>pageNum\<close>
  on, each pushed to \<open>pages\<close> and appended to the viewer; the first error ends the loop.
\<close>

function renderPages ::
  "env \<Rightarrow> pdf_doc \<Rightarrow> tabId \<Rightarrow> nat \<Rightarrow> page_container list \<Rightarrow> state
     \<Rightarrow> (error + page_container list) \<times> state" where
  "renderPages ev doc tabId pageNum pages s =
     (if pageNum \<le> numPages doc then
        (case createPageContainer ev doc pageNum tabId s of
           (Inl e, s') \<Rightarrow> (Inl e, s')
         | (Inr pageContainer, s') \<Rightarrow>
             renderPages ev doc tabId (Suc pageNum) (pages @ [pageContainer])
               (s'\<lparr>viewer := viewer s' @ [PageNode pageContainer]\<rparr>))
      else (Inr pages, s))"
  by pat_completeness auto
termination
  by (relation "measure (\<lambda>(ev, doc, tabId, pageNum, pages, s). Suc (numPages doc) - pageNum)") auto

declare renderPages.simps [simp del]

definition renderDocument :: "env \<Rightarrow> tabId \<Rightarrow> state \<Rightarrow> (error + unit) \<times> state" where
  "renderDocument ev tabId s =
     (case documents s tabId of
        None \<Rightarrow> (Inr (), s)
      | Some doc \<Rightarrow>
          (case tabs s tabId of
             None \<Rightarrow> (Inr (), s)
           | Some tb \<Rightarrow>
               (case renderPages ev doc tabId 1 []
                       (s\<lparr>viewer := [], two_page_layout := (pageLayout tb = ''two-page'')\<rparr>) of
                  (Inl e, s') \<Rightarrow> (Inl e, s')
                | (Inr pages, s') \<Rightarrow>
                    (Inr (), s'\<lparr>pageElements := (pageElements s')(tabId \<mapsto> pages)\<rparr>))))"

text \<open>
  \<open>renderDocument(tabId)\<close> called without \<open>await\<close>. The call runs up to the first
  \<open>await\<close>: the two guards, the cleared viewer and the layout class, and, when the document
  has a page, the lookup of the tab and the request for page 1 (lines 69 and 70), where it
  stops; the rest is in flight. A document without pages has no \<open>await\<close> on the way, and
  line 65 registers the empty sequence at once.
\<close>

definition renderStart :: "tabId \<Rightarrow> state \<Rightarrow> state" where
  "renderStart tabId s =
     (case documents s tabId of
        None \<Rightarrow> s
      | Some doc \<Rightarrow>
          (case tabs s tabId of
             None \<Rightarrow> s
           | Some tb \<Rightarrow>
               (let s1 = s\<lparr>viewer := [], two_page_layout := (pageLayout tb = ''two-page'')\<rparr>
                in if 1 \<le> numPages doc
                   then s1\<lparr>inflight := inflight s1 @ [(tabId, doc)]\<rparr>
                   else s1\<lparr>pageElements := (pageElements s1)(tabId \<mapsto> [])\<rparr>)))"

text \<open>
  The rest of such a render, from the arrival of page 1 to line 65, run to its end in one
  step. It works on the document it closed over and does not look at the registry again;
  nobody awaits it, so an error ends it silently. The tab manager keeps a tab object in
  place, so the tab is read as it is when the render resumes.
\<close>

definition renderResume :: "env \<Rightarrow> tabId \<times> pdf_doc \<Rightarrow> state \<Rightarrow> state" where
  "renderResume ev task s =
     (case renderPages ev (snd task) (fst task) 1 [] s of
        (Inl e, s') \<Rightarrow> s'
      | (Inr pages, s') \<Rightarrow> s'\<lparr>pageElements := (pageElements s')(fst task \<mapsto> pages)\<rparr>)"

subsection \<open>loadDocument\<close>

definition loadFailed :: "error \<Rightarrow> state \<Rightarrow> state" where
  "loadFailed e s =
     log_effect (Alert (''Error loading PDF: '' @ message e))
       (log_effect (ConsoleError ''Error loading PDF:'' e) s)"

text \<open>
  Lines 25 to 29: the handle enters both registries (the page registry with no pages
  yet) and the shell refreshes its UI.
\<close>

definition registerDocument :: "tabId \<Rightarrow> pdf_doc \<Rightarrow> state \<Rightarrow> state" where
  "registerDocument tabId pdfDoc s =
     log_effect UpdateUI
       (s\<lparr>documents := (documents s)(tabId \<mapsto> pdfDoc),
          pageElements := (pageElements s)(tabId \<mapsto> []),
          loaded := loaded s @ [(tabId, handle pdfDoc)],
          nextHandle := Suc (nextHandle s)\<rparr>)"

definition loadDocument :: "env \<Rightarrow> bytes \<Rightarrow> tabId \<Rightarrow> state \<Rightarrow> (error + pdf_doc) \<times> state" where
  "loadDocument ev data tabId s =
     (case getDocument ev data of
        Inl e \<Rightarrow> (Inl e, loadFailed e s)
      | Inr (n, pagesOf) \<Rightarrow>
          (let pdfDoc = \<lparr>handle = nextHandle s, numPages = n, getPage = pagesOf\<rparr>
           in case renderDocument ev tabId (registerDocument tabId pdfDoc s) of
                (Inl e, s3) \<Rightarrow> (Inl e, loadFailed e s3)
              | (Inr u, s3) \<Rightarrow> (Inr pdfDoc, s3)))"

subsection \<open>switchToTab, closeDocument\<close>

text \<open>
  \<open>switchToTab\<close> is not \<open>async\<close>: line 154 starts the render and goes on to restore the
  scroll offset while the render is in flight.
\<close>

definition switchToTab :: "env \<Rightarrow> tabId \<Rightarrow> state \<Rightarrow> state" where
  "switchToTab ev tabId s =
     (case documents s tabId of
        None \<Rightarrow> s\<lparr>viewer := [EmptyState]\<rparr>
      | Some doc \<Rightarrow>
          (let s1 = renderStart tabId s
           in case tabs s1 tabId of
                None \<Rightarrow> s1
              | Some tb \<Rightarrow>
                  (case scrollPosition tb of
                     None \<Rightarrow> s1
                   | Some p \<Rightarrow> if p = 0 then s1 else s1\<lparr>scrollTop := p\<rparr>)))"

definition closeDocument :: "tabId \<Rightarrow> state \<Rightarrow> state" where
  "closeDocument tabId s =
     (let s1 = (case documents s tabId of
                  Some doc \<Rightarrow> s\<lparr>destroyed := destroyed s @ [handle doc]\<rparr>
                | None \<Rightarrow> s)
      in s1\<lparr>documents := (documents s1)(tabId := None),
            pageElements := (pageElements s1)(tabId := None)\<rparr>)"

subsection \<open>goToPage and the view-state mutators\<close>

definition goToPage :: "tabId \<Rightarrow> int \<Rightarrow> state \<Rightarrow> state" where
  "goToPage tabId pageNum s =
     (case pageElements s tabId of
        None \<Rightarrow> s
      | Some pages \<Rightarrow>
          if pageNum < 1 \<or> pageNum > int (length pages) then s
          else
            (let pageContainer = pages ! nat (pageNum - 1);
                 s1 = log_effect (ScrollIntoView pageContainer) s;
                 s2 = s1\<lparr>tabs := updateTab tabId (\<lambda>t. t\<lparr>currentPage := Some pageNum\<rparr>) (tabs s1)\<rparr>;
                 s3 = s2\<lparr>pageNumberInput := pageNum\<rparr>
             in log_effect (SidebarUpdateCurrentPage tabId pageNum) s3))"

definition setZoom :: "env \<Rightarrow> tabId \<Rightarrow> rat \<Rightarrow> state \<Rightarrow> (error + unit) \<times> state" where
  "setZoom ev tabId z s =
     (case tabs s tabId of
        None \<Rightarrow> (Inr (), s)
      | Some tb \<Rightarrow>
          renderDocument ev tabId (s\<lparr>tabs := (tabs s)(tabId \<mapsto> tb\<lparr>zoom := Some z\<rparr>)\<rparr>))"

text \<open>\<open>setRotation(tabId, rotation)\<close>: the body never reads its second parameter.\<close>

definition setRotation :: "env \<Rightarrow> tabId \<Rightarrow> rat \<Rightarrow> state \<Rightarrow> (error + unit) \<times> state" where
  "setRotation ev tabId rot s =
     (case tabs s tabId of
        None \<Rightarrow> (Inr (), s)
      | Some tb \<Rightarrow>
          (let page = js_or_int (currentPage tb) 1
           in case renderDocument ev tabId s of
                (Inl e, s1) \<Rightarrow> (Inl e, s1)
              | (Inr u, s1) \<Rightarrow> (Inr (), goToPage tabId page s1)))"

definition setPageLayout :: "env \<Rightarrow> tabId \<Rightarrow> string \<Rightarrow> state \<Rightarrow> (error + unit) \<times> state" where
  "setPageLayout ev tabId lay s = renderDocument ev tabId s"

subsection \<open>The scroll listener and detectCurrentPage\<close>

text \<open>
  What \<open>getBoundingClientRect()\<close> answers when the detection runs: the top and the height
  of the container, and the top and bottom of the \<open>i\<close>-th element of the tab's pages.
\<close>

record layout =
  container_top :: rat
  container_height :: rat
  page_top :: "nat \<Rightarrow> rat"
  page_bottom :: "nat \<Rightarrow> rat"







subsection \<open>Operation sequences, the registries and live handles\<close>

datatype operation =
    LoadDocument bytes tabId
  | RenderDocument tabId
  | SwitchToTab tabId
  | CloseDocument tabId
  | SetZoom tabId rat
  | SetRotation tabId rat
  | SetPageLayout tabId string
  | GoToPage tabId int
  | ResumeRender

text \<open>
  One call of a method, awaited by its caller where it is \<open>async\<close> (an error it throws
  is dropped here), or the oldest render in flight resuming.
\<close>

fun perform :: "env \<Rightarrow> operation \<Rightarrow> state \<Rightarrow> state" where
  "perform ev (LoadDocument data tabId) s = snd (loadDocument ev data tabId s)"
| "perform ev (RenderDocument tabId) s = snd (renderDocument ev tabId s)"
| "perform ev (SwitchToTab tabId) s = switchToTab ev tabId s"
| "perform ev (CloseDocument tabId) s = closeDocument tabId s"
| "perform ev (SetZoom tabId z) s = snd (setZoom ev tabId z s)"
| "perform ev (SetRotation tabId rot) s = snd (setRotation ev tabId rot s)"
| "perform ev (SetPageLayout tabId lay) s = snd (setPageLayout ev tabId lay s)"
| "perform ev (GoToPage tabId pageNum) s = goToPage tabId pageNum s"
| "perform ev ResumeRender s =
     (case inflight s of
        [] \<Rightarrow> s
      | task # rest \<Rightarrow> renderResume ev task (s\<lparr>inflight := rest\<rparr>))"

fun run :: "env \<Rightarrow> operation list \<Rightarrow> state \<Rightarrow> state" where
  "run ev [] s = s"
| "run ev (x # xs) s = run ev xs (perform ev x s)"

definition registries_agree :: "state \<Rightarrow> bool" where
  "registries_agree s = (dom (pageElements s) = dom (documents s))"

text \<open>Every render in flight belongs to a tab that has a document.\<close>

definition renders_owned :: "state \<Rightarrow> bool" where
  "renders_owned s = list_all (\<lambda>task. documents s (fst task) \<noteq> None) (inflight s)"


text \<open>
  The live handles of a tab: the handles loaded for it, oldest first, on which
  \<open>destroy()\<close> has not been called.
\<close>

definition liveHandles :: "state \<Rightarrow> tabId \<Rightarrow> nat list" where
  "liveHandles s tabId =
     filter (\<lambda>h. h \<notin> set (destroyed s))
       (map snd (filter (\<lambda>p. fst p = tabId) (loaded s)))"

text \<open>
  Page \<open>pageNum\<close> of \<open>doc\<close> can be built for a tab with view state \<open>tb\<close>: the library
  delivers the page, its viewport and its raster.
\<close>

definition pageBuilds :: "env \<Rightarrow> pdf_doc \<Rightarrow> tab \<Rightarrow> nat \<Rightarrow> bool" where
  "pageBuilds ev doc tb pageNum =
     (case getPage doc pageNum of
        Inl e \<Rightarrow> False
      | Inr page \<Rightarrow>
          (case getViewport page (js_or (zoom tb) 1) (js_or (rotation tb) 0) of
             Inl e \<Rightarrow> False
           | Inr vp \<Rightarrow> render page vp = None))"

subsection \<open>Sample values\<close>

text \<open>
  A library whose documents have two US-Letter pages (612 by 792 points, turned by a
  rotation of 90 or 270 degrees), a display with a device pixel ratio of 2, and a shell
  with one tab.
\<close>

definition sample_viewport :: "rat \<Rightarrow> rat \<Rightarrow> viewport" where
  "sample_viewport scale rot =
     (if rot = 90 \<or> rot = 270
      then \<lparr>vp_width = 792 * scale, vp_height = 612 * scale, vp_scale = scale, vp_rotation = rot\<rparr>
      else \<lparr>vp_width = 612 * scale, vp_height = 792 * scale, vp_scale = scale, vp_rotation = rot\<rparr>)"

definition sample_page :: pdf_page where
  "sample_page =
     \<lparr>getViewport = (\<lambda>scale rot. Inr (sample_viewport scale rot)),
      render = (\<lambda>vp. None),
      getTextContent = Inr [''Hello'']\<rparr>"

definition sample_pages :: "nat \<Rightarrow> error + pdf_page" where
  "sample_pages n = (if 1 \<le> n \<and> n \<le> 2 then Inr sample_page else Inl (Error ''Invalid page request''))"

definition sample_env :: env where
  "sample_env =
     \<lparr>getDocument = (\<lambda>data. if data = [] then Inl (Error ''The PDF file is empty'')
                            else Inr (2, sample_pages)),
      has_renderTextLayer = True,
      renderTextLayer = (\<lambda>textContent vp. Inr textContent),
      TextLayer_render = (\<lambda>textContent vp. Inr textContent),
      devicePixelRatio = Some 2\<rparr>"

definition sample_tab :: tab where
  "sample_tab =
     \<lparr>zoom = Some (3 / 2), rotation = Some 0, pageLayout = ''single'',
      currentPage = Some 1, scrollPosition = None\<rparr>"

definition sample_state :: state where
  "sample_state = constructor [1 \<mapsto> sample_tab] (Some 1) []"

text \<open>A page whose text layer cannot be rendered, and a document whose second page is broken.\<close>

definition textless_page :: pdf_page where
  "textless_page = sample_page\<lparr>getTextContent := Inl (Error ''bad text content'')\<rparr>"

definition broken_doc :: pdf_doc where
  "broken_doc =
     \<lparr>handle = 0, numPages = 2,
      getPage = (\<lambda>n. if n = 1 then Inr sample_page else Inl (Error ''Page 2 is damaged''))\<rparr>"

definition sample_doc :: pdf_doc where
  "sample_doc = \<lparr>handle = 0, numPages = 2, getPage = sample_pages\<rparr>"

definition textless_doc :: pdf_doc where
  "textless_doc = \<lparr>handle = 0, numPages = 1, getPage = (\<lambda>n. Inr textless_page)\<rparr>"

text \<open>The sample shell with the sample document registered for its tab.\<close>

definition open_state :: state where
  "open_state =
     sample_state\<lparr>documents := [1 \<mapsto> sample_doc], pageElements := [1 \<mapsto> []],
                  loaded := [(1, 0)], nextHandle := 1\<rparr>"

text \<open>
  A US-Letter page at scale 1.2 as the library computes its viewport in doubles (the
  doubles nearest to 734.4 and 950.4), in a document of its own, and a display with a
  device pixel ratio of 1.25.
\<close>

definition scaled_page :: pdf_page where
  "scaled_page =
     sample_page\<lparr>getViewport := (\<lambda>scale rot.
        Inr \<lparr>vp_width = 6459850715509555 / 8796093022208,
             vp_height = 8359806808306483 / 8796093022208,
             vp_scale = scale, vp_rotation = rot\<rparr>)\<rparr>"

definition scaled_doc :: pdf_doc where
  "scaled_doc = \<lparr>handle = 0, numPages = 1, getPage = (\<lambda>n. Inr scaled_page)\<rparr>"

definition scaled_env :: env where
  "scaled_env = sample_env\<lparr>devicePixelRatio := Some (5 / 4)\<rparr>"

text \<open>A library that delivers the broken document for every file.\<close>

definition broken_env :: env where
  "broken_env = sample_env\<lparr>getDocument := (\<lambda>data. Inr (2, getPage broken_doc))\<rparr>"

text \<open>
  A container 800 pixels high whose content (pages of 1188 pixels, 12 pixels apart) is
  scrolled by 1000 pixels: its centre lies in the second page.
\<close>

definition sample_layout :: layout where
  "sample_layout =
     \<lparr>container_top = 0, container_height = 800,
      page_top = (\<lambda>i. of_nat i * 1200 - 1000),
      page_bottom = (\<lambda>i. of_nat i * 1200 + 188)\<rparr>"

section \<open>Frame lemmas\<close>

text \<open>Building a page container writes nothing but the console.\<close>

lemma createPageContainer_frame:
  "snd (createPageContainer ev doc n t s) =
     s\<lparr>effects := effects (snd (createPageContainer ev doc n t s))\<rparr>"
  by (simp add: createPageContainer_def textLayerOf_def log_effect_def Let_def
        split: sum.splits option.splits prod.splits)

text \<open>What a successful call has gone through.\<close>


lemma createPageContainer_Inr:
  assumes "createPageContainer ev doc pageNum tabId s = (Inr pc, s')"
  obtains page tb vp where
    "getPage doc pageNum = Inr page" "tabs s tabId = Some tb"
    "getViewport page (js_or (zoom tb) 1) (js_or (rotation tb) 0) = Inr vp"
    "render page vp = None"
    "pc = \<lparr>pc_page = pageNum, pc_style_width = vp_width vp, pc_style_height = vp_height vp,
           pc_canvas = mkCanvas vp (js_or (devicePixelRatio ev) 1),
           pc_text_layer = fst (textLayerOf ev page vp s),
           pc_annotation_layer = mkAnnotationLayer vp pageNum tabId\<rparr>"
    "s' = snd (textLayerOf ev page vp s)"
proof (cases "getPage doc pageNum")
  case (Inl e)
  with assms show ?thesis by (simp add: createPageContainer_def)
next
  case page: (Inr page)
  show ?thesis
  proof (cases "tabs s tabId")
    case None
    with assms page show ?thesis by (simp add: createPageContainer_def)
  next
    case tb: (Some tb)
    show ?thesis
    proof (cases "getViewport page (js_or (zoom tb) 1) (js_or (rotation tb) 0)")
      case (Inl e)
      with assms page tb show ?thesis by (simp add: createPageContainer_def Let_def)
    next
      case vp: (Inr vp)
      show ?thesis
      proof (cases "render page vp")
        case (Some e)
        with assms page tb vp show ?thesis by (simp add: createPageContainer_def Let_def)
      next
        case None
        with assms page tb vp that[OF page tb vp None] show ?thesis
          by (simp add: createPageContainer_def Let_def split_beta)
      qed
    qed
  qed
qed

text \<open>The page loop writes the viewer and the console only.\<close>

lemma renderPages_frame:
  "renderPages ev doc t n acc s = (r, s') \<Longrightarrow>
     s' = s\<lparr>viewer := viewer s', effects := effects s'\<rparr>"
proof (induction ev doc t n acc s arbitrary: r s' rule: renderPages.induct)
  case (1 ev doc tabId pageNum pages s)
  show ?case
  proof (cases "pageNum \<le> numPages doc")
    case False
    with "1.prems" show ?thesis by (simp add: renderPages.simps[of ev doc tabId pageNum])
  next
    case True
    obtain r1 s1 where c: "createPageContainer ev doc pageNum tabId s = (r1, s1)"
      by (cases "createPageContainer ev doc pageNum tabId s")
    have f: "s1 = s\<lparr>effects := effects s1\<rparr>"
      using createPageContainer_frame[of ev doc pageNum tabId s] c by simp
    show ?thesis
    proof (cases r1)
      case (Inl e)
      with "1.prems" True c have "s' = s1"
        by (simp add: renderPages.simps[of ev doc tabId pageNum])
      moreover have "viewer s1 = viewer s" by (subst f) simp
      ultimately show ?thesis using f by simp
    next
      case (Inr pc)
      with "1.prems" True c
      have "renderPages ev doc tabId (Suc pageNum) (pages @ [pc])
              (s1\<lparr>viewer := viewer s1 @ [PageNode pc]\<rparr>) = (r, s')"
        by (simp add: renderPages.simps[of ev doc tabId pageNum])
      from "1.IH"[OF True c[symmetric] Inr this, simplified]
      have "s' = s1\<lparr>viewer := viewer s', effects := effects s'\<rparr>" by simp
      then have "s' = (s\<lparr>effects := effects s1\<rparr>)\<lparr>viewer := viewer s', effects := effects s'\<rparr>"
        using f by simp
      then show ?thesis by simp
    qed
  qed
qed


lemma renderPages_fields:
  assumes "renderPages ev doc t n acc s = (r, s')"
  shows "documents s' = documents s \<and> pageElements s' = pageElements s \<and> tabs s' = tabs s \<and>
    destroyed s' = destroyed s \<and> loaded s' = loaded s \<and> nextHandle s' = nextHandle s \<and>
    two_page_layout s' = two_page_layout s \<and> scrollTop s' = scrollTop s \<and>
    pageNumberInput s' = pageNumberInput s \<and> activeTab s' = activeTab s \<and>
    scrollTimeout s' = scrollTimeout s \<and> clock s' = clock s \<and> inflight s' = inflight s"
  by (subst (1 2 3 4 5 6 7 8 9 10 11 12 13) renderPages_frame[OF assms]) simp

lemma renderDocument_cases:
  assumes "renderDocument ev t s = (r, s')"
  obtains (skip) "documents s t = None \<or> tabs s t = None" "r = Inr ()" "s' = s"
  | (fail) doc tb e where "documents s t = Some doc" "tabs s t = Some tb" "r = Inl e"
      "renderPages ev doc t 1 [] (s\<lparr>viewer := [], two_page_layout := (pageLayout tb = ''two-page'')\<rparr>) = (Inl e, s')"
  | (rendered) doc tb pages s1 where "documents s t = Some doc" "tabs s t = Some tb" "r = Inr ()"
      "renderPages ev doc t 1 [] (s\<lparr>viewer := [], two_page_layout := (pageLayout tb = ''two-page'')\<rparr>) = (Inr pages, s1)"
      "s' = s1\<lparr>pageElements := (pageElements s1)(t \<mapsto> pages)\<rparr>"
  using assms
  by (auto simp: renderDocument_def split: option.splits sum.splits prod.splits)

text \<open>The pages that the loop builds depend on the state through the tabs only.\<close>

lemma textLayerOf_fst: "fst (textLayerOf ev page vp s2) = fst (textLayerOf ev page vp s)"
  by (simp add: textLayerOf_def split: sum.splits)

lemma createPageContainer_fst_cong:
  assumes "tabs s2 = tabs s"
  shows "fst (createPageContainer ev doc n t s2) = fst (createPageContainer ev doc n t s)"
  using assms textLayerOf_fst[of ev _ _ s2 s]
  by (simp add: createPageContainer_def Let_def split_beta split: sum.splits option.splits)

lemma createPageContainer_tabs: "tabs (snd (createPageContainer ev doc n t s)) = tabs s"
  by (subst createPageContainer_frame) simp

lemma createPageContainer_viewer: "viewer (snd (createPageContainer ev doc n t s)) = viewer s"
  by (subst createPageContainer_frame) simp

lemma createPageContainer_builds:
  assumes "tabs s t = Some tb" "pageBuilds ev doc tb n"
  shows "\<exists>pc. fst (createPageContainer ev doc n t s) = Inr pc \<and> pc_page pc = n"
proof -
  from assms(2) obtain page vp where
    "getPage doc n = Inr page"
    "getViewport page (js_or (zoom tb) 1) (js_or (rotation tb) 0) = Inr vp"
    "render page vp = None"
    by (auto simp: pageBuilds_def split: sum.splits)
  with assms(1) show ?thesis
    by (simp add: createPageContainer_def Let_def split_beta)
qed

lemma renderPages_fst_cong:
  "tabs s2 = tabs s \<Longrightarrow>
     fst (renderPages ev doc t n acc s2) = fst (renderPages ev doc t n acc s)"
proof (induction ev doc t n acc s arbitrary: s2 rule: renderPages.induct)
  case (1 ev doc tabId pageNum pages s)
  show ?case
  proof (cases "pageNum \<le> numPages doc")
    case False
    then show ?thesis
      by (simp add: renderPages.simps[of ev doc tabId pageNum])
  next
    case True
    obtain r1 s1 where c: "createPageContainer ev doc pageNum tabId s = (r1, s1)"
      by (cases "createPageContainer ev doc pageNum tabId s")
    obtain r2 s2' where c2: "createPageContainer ev doc pageNum tabId s2 = (r2, s2')"
      by (cases "createPageContainer ev doc pageNum tabId s2")
    have r: "r2 = r1"
      using createPageContainer_fst_cong[OF "1.prems", of ev doc pageNum tabId] c c2 by simp
    have t: "tabs s2' = tabs s1"
      using createPageContainer_tabs[of ev doc pageNum tabId s]
        createPageContainer_tabs[of ev doc pageNum tabId s2] c c2 "1.prems" by simp
    show ?thesis
    proof (cases r1)
      case (Inl e)
      with True c c2 r show ?thesis
        by (simp add: renderPages.simps[of ev doc tabId pageNum])
    next
      case (Inr pc)
      have "tabs (s2'\<lparr>viewer := viewer s2' @ [PageNode pc]\<rparr>)
              = tabs (s1\<lparr>viewer := viewer s1 @ [PageNode pc]\<rparr>)"
        using t by simp
      from "1.IH"[OF True c[symmetric] Inr this] True c c2 r Inr show ?thesis
        by (simp add: renderPages.simps[of ev doc tabId pageNum])
    qed
  qed
qed

lemma renderPages_builds:
  assumes "tabs s t = Some tb"
    and "\<forall>n. pageNum \<le> n \<and> n \<le> numPages doc \<longrightarrow> pageBuilds ev doc tb n"
  shows "\<exists>new s'. renderPages ev doc t pageNum acc s = (Inr (acc @ new), s') \<and>
           map pc_page new = [pageNum..<Suc (numPages doc)] \<and>
           viewer s' = viewer s @ map PageNode new"
  using assms
proof (induction ev doc t pageNum acc s rule: renderPages.induct)
  case (1 ev doc tabId pageNum pages s)
  show ?case
  proof (cases "pageNum \<le> numPages doc")
    case False
    then show ?thesis
      by (simp add: renderPages.simps[of ev doc tabId pageNum])
  next
    case True
    obtain r1 s1 where c: "createPageContainer ev doc pageNum tabId s = (r1, s1)"
      by (cases "createPageContainer ev doc pageNum tabId s")
    from "1.prems" True have "pageBuilds ev doc tb pageNum" by simp
    from createPageContainer_builds[OF "1.prems"(1) this] c
    obtain pc where pc: "r1 = Inr pc" "pc_page pc = pageNum" by auto
    have t1: "tabs s1 = tabs s" "viewer s1 = viewer s"
      using createPageContainer_tabs[of ev doc pageNum tabId s]
        createPageContainer_viewer[of ev doc pageNum tabId s] c by simp_all
    let ?s2 = "s1\<lparr>viewer := viewer s1 @ [PageNode pc]\<rparr>"
    have "tabs ?s2 tabId = Some tb" using t1 "1.prems"(1) by simp
    moreover have "\<forall>n. Suc pageNum \<le> n \<and> n \<le> numPages doc \<longrightarrow> pageBuilds ev doc tb n"
      using "1.prems"(2) by simp
    ultimately obtain new s' where
      n: "renderPages ev doc tabId (Suc pageNum) (pages @ [pc]) ?s2 = (Inr ((pages @ [pc]) @ new), s')"
         "map pc_page new = [Suc pageNum..<Suc (numPages doc)]"
         "viewer s' = viewer ?s2 @ map PageNode new"
      using "1.IH"[OF True c[symmetric] pc(1)] by blast
    have "renderPages ev doc tabId pageNum pages s = (Inr (pages @ (pc # new)), s')"
      using True c pc(1) n(1) by (simp add: renderPages.simps[of ev doc tabId pageNum])
    moreover have "map pc_page (pc # new) = [pageNum..<Suc (numPages doc)]"
      using True pc(2) n(2) by (simp add: upt_conv_Cons)
    moreover have "viewer s' = viewer s @ map PageNode (pc # new)"
      using n(3) t1 by simp
    ultimately show ?thesis by blast
  qed
qed

text \<open>A render leaves everything but the page registry, the viewer and the console as it was.\<close>

lemma renderDocument_fields:
  assumes "renderDocument ev t s = (r, s')"
  shows "documents s' = documents s \<and> tabs s' = tabs s \<and>
    destroyed s' = destroyed s \<and> loaded s' = loaded s \<and> nextHandle s' = nextHandle s \<and>
    scrollTop s' = scrollTop s \<and>
    pageNumberInput s' = pageNumberInput s \<and> activeTab s' = activeTab s \<and>
    scrollTimeout s' = scrollTimeout s \<and> clock s' = clock s \<and> inflight s' = inflight s"
  using assms
proof (cases rule: renderDocument_cases)
  case skip
  then show ?thesis by simp
next
  case (fail doc tb e)
  from renderPages_fields[OF fail(4)] show ?thesis by simp
next
  case (rendered doc tb pages s1)
  from renderPages_fields[OF rendered(4)] show ?thesis unfolding rendered(5) by simp
qed











lemma constructor_registries: "registries_agree (constructor a b c)"
  by (simp add: registries_agree_def constructor_def)

text \<open>The invariant: the registries hold the same tabs and every render in flight is owned.\<close>

lemma renders_owned_cong:
  assumes "renders_owned s" "inflight s' = inflight s" "\<And>t. documents s t \<noteq> None \<Longrightarrow> documents s' t \<noteq> None"
  shows "renders_owned s'"
  using assms by (auto simp: renders_owned_def list_all_iff)

















section \<open>Evaluation of the sample values\<close>

lemmas sample_defs = sample_state_def sample_env_def sample_tab_def sample_page_def
  sample_pages_def sample_viewport_def textless_page_def broken_doc_def sample_doc_def
  textless_doc_def open_state_def broken_env_def sample_layout_def scaled_page_def
  scaled_doc_def scaled_env_def
  constructor_def

lemmas op_defs = loadDocument_def registerDocument_def renderDocument_def createPageContainer_def textLayerOf_def
  renderText_def mkCanvas_def mkAnnotationLayer_def log_effect_def loadFailed_def js_or_def
  js_or_int_def updateTab_def Let_def renderPages.simps


lemma sample_load_pages:
  "map_option (map pc_page) (pageElements (snd (loadDocument sample_env [37] 1 sample_state)) 1)
     = Some [1, 2]"
  by (simp add: sample_defs op_defs)

lemma sample_load_handle:
  "map_option handle (documents (snd (loadDocument sample_env [37] 1 sample_state)) 1) = Some 0"
  by (simp add: sample_defs op_defs)

section \<open>goToPage outside the range of the registered pages\<close>

text \<open>
  C9. When the tab has no entry in the page registry, or the page number is below 1 or
  above the number of page containers registered for the tab, \<open>goToPage\<close> returns the
  state it was given: nothing is scrolled into view, the tab's current page stays, and
  neither the page-number input nor the sidebar is written.
\<close>

theorem goToPage_out_of_range:
  assumes "pageElements s tabId = None \<or>
           (\<exists>pages. pageElements s tabId = Some pages \<and>
                    (pageNum < 1 \<or> int (length pages) < pageNum))"
  shows "goToPage tabId pageNum s = s"
  using assms by (auto simp: goToPage_def)

theorem goToPage_out_of_range_witness:
  "goToPage 1 3 (snd (loadDocument sample_env [37] 1 sample_state))
     = snd (loadDocument sample_env [37] 1 sample_state)"
proof -
  have "map_option length (pageElements (snd (loadDocument sample_env [37] 1 sample_state)) 1)
          = Some 2"
    using sample_load_pages by (auto simp: map_option_case split: option.splits)
  then have "\<exists>pages. pageElements (snd (loadDocument sample_env [37] 1 sample_state)) 1 = Some pages
                \<and> ((3::int) < 1 \<or> int (length pages) < 3)"
    by auto
  then show ?thesis by (intro goToPage_out_of_range disjI2)
qed

section \<open>closeDocument\<close>

text \<open>Closing a tab that neither registry knows changes nothing.\<close>

lemma closeDocument_absent:
  assumes "documents s tabId = None" "registries_agree s"
  shows "closeDocument tabId s = s"
proof -
  have "tabId \<notin> dom (pageElements s)"
    using assms by (auto simp: registries_agree_def)
  then have "pageElements s tabId = None" by auto
  with assms(1) show ?thesis
    by (simp add: closeDocument_def Let_def fun_upd_idem)
qed

text \<open>
  C5. Closing a tab that has a registered document destroys that handle and leaves the
  tab without an entry in the document registry and in the page registry. Closing a tab
  that has no registered document destroys nothing and leaves the document registry as it
  was; where the two registries hold the same tabs it changes nothing at all. In both
  cases the entries of every other tab stay in both registries.
\<close>

theorem closeDocument_removes:
  "(documents s tabId = Some doc \<longrightarrow>
      destroyed (closeDocument tabId s) = destroyed s @ [handle doc] \<and>
      documents (closeDocument tabId s) tabId = None \<and>
      pageElements (closeDocument tabId s) tabId = None) \<and>
   (documents s tabId = None \<longrightarrow>
      destroyed (closeDocument tabId s) = destroyed s \<and>
      documents (closeDocument tabId s) = documents s \<and>
      pageElements (closeDocument tabId s) tabId = None \<and>
      (registries_agree s \<longrightarrow> closeDocument tabId s = s)) \<and>
   (\<forall>u. u \<noteq> tabId \<longrightarrow>
      documents (closeDocument tabId s) u = documents s u \<and>
      pageElements (closeDocument tabId s) u = pageElements s u)"
  using closeDocument_absent[of s tabId]
  by (auto simp: closeDocument_def Let_def split: option.splits)

theorem closeDocument_removes_witness:
  "destroyed (closeDocument 1 (snd (loadDocument sample_env [37] 1 sample_state))) = [0] \<and>
   documents (closeDocument 1 (snd (loadDocument sample_env [37] 1 sample_state))) 1 = None \<and>
   pageElements (closeDocument 1 (snd (loadDocument sample_env [37] 1 sample_state))) 1 = None \<and>
   closeDocument 2 sample_state = sample_state"
proof -
  let ?s = "snd (loadDocument sample_env [37] 1 sample_state)"
  obtain d where d: "documents ?s 1 = Some d" "handle d = 0"
    using sample_load_handle by (auto simp: map_option_case split: option.splits)
  have e: "destroyed ?s = []" by (simp add: sample_defs op_defs)
  have n: "documents sample_state 2 = None" "registries_agree sample_state"
    by (simp_all add: sample_state_def constructor_registries) (simp add: constructor_def)
  show ?thesis
    using closeDocument_removes[of ?s 1 d] closeDocument_removes[of sample_state 2] d e n
    by simp
qed

section \<open>The two registries hold the same tabs\<close>




section \<open>A text layer that cannot be rendered\<close>

text \<open>
  C3. When the text layer of a page throws \<open>e\<close> (in \<open>getTextContent\<close> or in the
  text-layer renderer, the page, its viewport and its raster having arrived),
  \<open>createPageContainer\<close> appends the console entry for \<open>e\<close> to the effects, changes
  nothing else, and still returns the page container: it holds the canvas with the
  rendered page, a text layer without spans and the annotation layer of that page and
  tab, and the call does not end with an error.
\<close>

theorem createPageContainer_text_layer_failure:
  assumes "getPage doc pageNum = Inr page"
    and "tabs s tabId = Some tb"
    and "getViewport page (js_or (zoom tb) 1) (js_or (rotation tb) 0) = Inr vp"
    and "render page vp = None"
    and "renderText ev page vp = Inl e"
  shows "\<exists>pc s'. createPageContainer ev doc pageNum tabId s = (Inr pc, s') \<and>
              effects s' = effects s @ [ConsoleError ''Error rendering text layer:'' e] \<and>
              s' = s\<lparr>effects := effects s @ [ConsoleError ''Error rendering text layer:'' e]\<rparr> \<and>
              pc_page pc = pageNum \<and>
              pc_canvas pc = mkCanvas vp (js_or (devicePixelRatio ev) 1) \<and>
              cv_rendered (pc_canvas pc) = vp \<and>
              tl_spans (pc_text_layer pc) = [] \<and>
              al_page (pc_annotation_layer pc) = pageNum \<and>
              al_tab (pc_annotation_layer pc) = tabId \<and>
              al_style_width (pc_annotation_layer pc) = vp_width vp \<and>
              al_style_height (pc_annotation_layer pc) = vp_height vp"
  using assms
  by (simp add: createPageContainer_def textLayerOf_def log_effect_def Let_def mkCanvas_def
        mkAnnotationLayer_def)

theorem createPageContainer_text_layer_failure_witness:
  "\<exists>pc s'. createPageContainer sample_env textless_doc 1 1 sample_state = (Inr pc, s') \<and>
        effects s' = [ConsoleError ''Error rendering text layer:'' (Error ''bad text content'')] \<and>
        pc_page pc = 1 \<and>
        cv_rendered (pc_canvas pc) = sample_viewport (3 / 2) 0 \<and>
        tl_spans (pc_text_layer pc) = [] \<and>
        al_page (pc_annotation_layer pc) = 1 \<and>
        al_tab (pc_annotation_layer pc) = 1"
proof -
  have 1: "getPage textless_doc 1 = Inr textless_page" by (simp add: textless_doc_def)
  have 2: "tabs sample_state 1 = Some sample_tab" by (simp add: sample_defs)
  have 3: "getViewport textless_page (js_or (zoom sample_tab) 1) (js_or (rotation sample_tab) 0)
             = Inr (sample_viewport (3 / 2) 0)"
    by (simp add: textless_page_def sample_page_def sample_tab_def js_or_def)
  have 4: "render textless_page (sample_viewport (3 / 2) 0) = None"
    by (simp add: textless_page_def sample_page_def)
  have 5: "renderText sample_env textless_page (sample_viewport (3 / 2) 0)
             = Inl (Error ''bad text content'')"
    by (simp add: renderText_def textless_page_def)
  have 6: "effects sample_state = []" by (simp add: sample_defs)
  from createPageContainer_text_layer_failure[OF 1 2 3 4 5]
  obtain pc s' where
    "createPageContainer sample_env textless_doc 1 1 sample_state = (Inr pc, s')"
    "effects s' = effects sample_state
                    @ [ConsoleError ''Error rendering text layer:'' (Error ''bad text content'')]"
    "pc_page pc = 1" "cv_rendered (pc_canvas pc) = sample_viewport (3 / 2) 0"
    "tl_spans (pc_text_layer pc) = []"
    "al_page (pc_annotation_layer pc) = 1" "al_tab (pc_annotation_layer pc) = 1"
    by (elim exE conjE)
  then show ?thesis unfolding 6 by (intro exI conjI) simp_all
qed

section \<open>Canvas and container sizes\<close>

lemma canvasDimension_in_range:
  "0 \<le> f \<Longrightarrow> f \<le> 2147483647 \<Longrightarrow> canvasDimension dflt (Some f) = f"
  by (simp add: canvasDimension_def)

text \<open>Products of doubles, evaluated.\<close>

lemma sample_products:
  "js_times 918 2 = Some 1836" "js_times 1188 2 = Some 2376"
  "js_times 2448000000 2 = Some 4896000000" "js_times 3168000000 2 = Some 6336000000"
  "js_times (6459850715509555 / 8796093022208) (5 / 4) = Some 918"
  "js_times (8359806808306483 / 8796093022208) (5 / 4) = Some 1188"
  "js_times (6459850715509555 / 8796093022208) 1 = Some (6459850715509555 / 8796093022208)"
  "js_times (8359806808306483 / 8796093022208) 1 = Some (8359806808306483 / 8796093022208)"
  by code_simp+

lemma sample_floors:
  "\<lfloor>6459850715509555 / 8796093022208 :: rat\<rfloor> = 734"
  "\<lfloor>8359806808306483 / 8796093022208 :: rat\<rfloor> = 950"
  "\<lfloor>(6459850715509555 / 8796093022208) * (5 / 4) :: rat\<rfloor> = 917"
  by code_simp+

text \<open>
  C7, as the code has it. The tab of the sample shell, zoomed to 4000000: the viewport
  of a page is 2448000000 wide, the device pixel ratio is 2 and the product is
  4896000000, but the canvas, whose width is an \<open>unsigned long\<close>, is 601032704 wide (and
  2041032704 high, where the product is 6336000000).
\<close>

theorem canvas_width_wraps:
  "devicePixelRatio sample_env = Some 2 \<and>
   js_times 2448000000 2 = Some 4896000000 \<and>
   map_option
     (map (\<lambda>pc. (vp_width (cv_rendered (pc_canvas pc)), cv_width (pc_canvas pc),
                 cv_height (pc_canvas pc))))
     (pageElements
        (snd (setZoom sample_env 1 4000000
                (perform sample_env (LoadDocument [37] 1) sample_state))) 1)
     = Some [(2448000000, 601032704, 2041032704), (2448000000, 601032704, 2041032704)]"
  by (simp add: sample_defs op_defs setZoom_def canvasDimension_def sample_products)

text \<open>
  C7, amended. Every page container that \<open>createPageContainer\<close> returns was built from
  the viewport \<open>vp\<close> of the page at the tab's zoom and rotation. Where the product of the
  width of \<open>vp\<close> and the device pixel ratio, as binary64 arithmetic rounds it, has a floor
  from 0 to 2147483647, the width of the canvas is that floor, and likewise its height;
  in every case they are what the \<open>unsigned long\<close> attributes keep of the floors. The CSS
  size of the canvas and the size of the container are the width and height of \<open>vp\<close>,
  and the device pixel ratio is 1 when the window has none.
\<close>

theorem createPageContainer_dimensions:
  assumes "createPageContainer ev doc pageNum tabId s = (Inr pc, s')"
  shows "\<exists>page tb vp.
           getPage doc pageNum = Inr page \<and> tabs s tabId = Some tb \<and>
           getViewport page (js_or (zoom tb) 1) (js_or (rotation tb) 0) = Inr vp \<and>
           cv_rendered (pc_canvas pc) = vp \<and>
           (\<forall>w. js_times (vp_width vp) (js_or (devicePixelRatio ev) 1) = Some w \<and>
                0 \<le> \<lfloor>w\<rfloor> \<and> \<lfloor>w\<rfloor> \<le> 2147483647 \<longrightarrow> cv_width (pc_canvas pc) = \<lfloor>w\<rfloor>) \<and>
           (\<forall>h. js_times (vp_height vp) (js_or (devicePixelRatio ev) 1) = Some h \<and>
                0 \<le> \<lfloor>h\<rfloor> \<and> \<lfloor>h\<rfloor> \<le> 2147483647 \<longrightarrow> cv_height (pc_canvas pc) = \<lfloor>h\<rfloor>) \<and>
           cv_width (pc_canvas pc) =
             canvasDimension 300
               (map_option floor (js_times (vp_width vp) (js_or (devicePixelRatio ev) 1))) \<and>
           cv_height (pc_canvas pc) =
             canvasDimension 150
               (map_option floor (js_times (vp_height vp) (js_or (devicePixelRatio ev) 1))) \<and>
           cv_style_width (pc_canvas pc) = vp_width vp \<and>
           cv_style_height (pc_canvas pc) = vp_height vp \<and>
           pc_style_width pc = vp_width vp \<and>
           pc_style_height pc = vp_height vp \<and>
           (devicePixelRatio ev = None \<longrightarrow> js_or (devicePixelRatio ev) 1 = 1)"
  using assms
proof (cases rule: createPageContainer_Inr)
  case (1 page tb vp)
  let ?dpr = "js_or (devicePixelRatio ev) 1"
  have w: "cv_width (pc_canvas pc) = canvasDimension 300 (map_option floor (js_times (vp_width vp) ?dpr))"
    and h: "cv_height (pc_canvas pc) = canvasDimension 150 (map_option floor (js_times (vp_height vp) ?dpr))"
    by (simp_all add: 1(5) mkCanvas_def)
  have wr: "\<forall>w. js_times (vp_width vp) ?dpr = Some w \<and> 0 \<le> \<lfloor>w\<rfloor> \<and> \<lfloor>w\<rfloor> \<le> 2147483647
              \<longrightarrow> cv_width (pc_canvas pc) = \<lfloor>w\<rfloor>"
    using w by (auto simp: canvasDimension_in_range)
  have hr: "\<forall>h. js_times (vp_height vp) ?dpr = Some h \<and> 0 \<le> \<lfloor>h\<rfloor> \<and> \<lfloor>h\<rfloor> \<le> 2147483647
              \<longrightarrow> cv_height (pc_canvas pc) = \<lfloor>h\<rfloor>"
    using h by (auto simp: canvasDimension_in_range)
  have d: "devicePixelRatio ev = None \<longrightarrow> ?dpr = 1" by (simp add: js_or_def)
  have rest: "cv_rendered (pc_canvas pc) = vp" "cv_style_width (pc_canvas pc) = vp_width vp"
    "cv_style_height (pc_canvas pc) = vp_height vp" "pc_style_width pc = vp_width vp"
    "pc_style_height pc = vp_height vp"
    by (simp_all add: 1(5) mkCanvas_def)
  show ?thesis
    using 1(1-3) w h wr hr d rest
    by (intro exI[of _ page] exI[of _ tb] exI[of _ vp]) (intro conjI; assumption)
qed

theorem createPageContainer_dimensions_witness:
  "(case fst (createPageContainer sample_env sample_doc 1 1 sample_state) of
      Inl e \<Rightarrow> False
    | Inr pc \<Rightarrow>
        cv_width (pc_canvas pc) = 1836 \<and> cv_height (pc_canvas pc) = 2376 \<and>
        cv_style_width (pc_canvas pc) = 918 \<and> cv_style_height (pc_canvas pc) = 1188 \<and>
        pc_style_width pc = 918 \<and> pc_style_height pc = 1188) \<and>
   (case fst (createPageContainer scaled_env scaled_doc 1 1 sample_state) of
      Inl e \<Rightarrow> False
    | Inr pc \<Rightarrow>
        cv_width (pc_canvas pc) = 918 \<and> cv_height (pc_canvas pc) = 1188 \<and>
        \<lfloor>cv_style_width (pc_canvas pc) * (5 / 4)\<rfloor> = 917) \<and>
   (case fst (createPageContainer (scaled_env\<lparr>devicePixelRatio := None\<rparr>) scaled_doc 1 1
                sample_state) of
      Inl e \<Rightarrow> False
    | Inr pc \<Rightarrow> cv_width (pc_canvas pc) = 734 \<and> cv_height (pc_canvas pc) = 950)"
proof -
  let ?w = "6459850715509555 / 8796093022208 :: rat"
  let ?h = "8359806808306483 / 8796093022208 :: rat"
  have v: "getPage sample_doc 1 = Inr sample_page" "tabs sample_state 1 = Some sample_tab"
    "getViewport sample_page (js_or (zoom sample_tab) 1) (js_or (rotation sample_tab) 0)
       = Inr (sample_viewport (3 / 2) 0)"
    "vp_width (sample_viewport (3 / 2) 0) = 918" "vp_height (sample_viewport (3 / 2) 0) = 1188"
    "js_or (devicePixelRatio sample_env) 1 = 2"
    by (simp_all add: sample_defs js_or_def)
  have u: "getPage scaled_doc 1 = Inr scaled_page"
    "getViewport scaled_page (js_or (zoom sample_tab) 1) (js_or (rotation sample_tab) 0)
       = Inr \<lparr>vp_width = ?w, vp_height = ?h, vp_scale = 3 / 2, vp_rotation = 0\<rparr>"
    "js_or (devicePixelRatio scaled_env) 1 = 5 / 4"
    "js_or (devicePixelRatio (scaled_env\<lparr>devicePixelRatio := None\<rparr>)) 1 = 1"
    by (simp_all add: sample_defs js_or_def)
  obtain pc s' where a: "createPageContainer sample_env sample_doc 1 1 sample_state = (Inr pc, s')"
    using v(1,2,3) by (simp add: createPageContainer_def Let_def sample_page_def split_beta)
  obtain pc2 s2 where b: "createPageContainer scaled_env scaled_doc 1 1 sample_state = (Inr pc2, s2)"
    using u(1,2) v(2)
    by (simp add: createPageContainer_def Let_def scaled_page_def sample_page_def split_beta)
  obtain pc3 s3 where c: "createPageContainer (scaled_env\<lparr>devicePixelRatio := None\<rparr>) scaled_doc 1 1
                       sample_state = (Inr pc3, s3)"
    using u(1,2) v(2)
    by (simp add: createPageContainer_def Let_def scaled_page_def sample_page_def split_beta)
  have A: "cv_width (pc_canvas pc) = 1836 \<and> cv_height (pc_canvas pc) = 2376 \<and>
        cv_style_width (pc_canvas pc) = 918 \<and> cv_style_height (pc_canvas pc) = 1188 \<and>
        pc_style_width pc = 918 \<and> pc_style_height pc = 1188"
  proof -
    from createPageContainer_dimensions[OF a] obtain page tb vp where
      f: "getPage sample_doc 1 = Inr page" "tabs sample_state 1 = Some tb"
        "getViewport page (js_or (zoom tb) 1) (js_or (rotation tb) 0) = Inr vp"
      and wr: "\<forall>w. js_times (vp_width vp) (js_or (devicePixelRatio sample_env) 1) = Some w \<and>
                0 \<le> \<lfloor>w\<rfloor> \<and> \<lfloor>w\<rfloor> \<le> 2147483647 \<longrightarrow> cv_width (pc_canvas pc) = \<lfloor>w\<rfloor>"
      and hr: "\<forall>h. js_times (vp_height vp) (js_or (devicePixelRatio sample_env) 1) = Some h \<and>
                0 \<le> \<lfloor>h\<rfloor> \<and> \<lfloor>h\<rfloor> \<le> 2147483647 \<longrightarrow> cv_height (pc_canvas pc) = \<lfloor>h\<rfloor>"
      and css: "cv_style_width (pc_canvas pc) = vp_width vp"
        "cv_style_height (pc_canvas pc) = vp_height vp"
        "pc_style_width pc = vp_width vp" "pc_style_height pc = vp_height vp"
      by blast
    have vp: "vp = sample_viewport (3 / 2) 0" using f v(1,2,3) by simp
    have "cv_width (pc_canvas pc) = \<lfloor>1836 :: rat\<rfloor>"
      using wr[rule_format, of 1836] sample_products(1) by (simp add: vp v(4,6))
    moreover have "cv_height (pc_canvas pc) = \<lfloor>2376 :: rat\<rfloor>"
      using hr[rule_format, of 2376] sample_products(2) by (simp add: vp v(5,6))
    ultimately show ?thesis using css by (simp add: vp v(4,5))
  qed
  have B: "cv_width (pc_canvas pc2) = 918 \<and> cv_height (pc_canvas pc2) = 1188 \<and>
        \<lfloor>cv_style_width (pc_canvas pc2) * (5 / 4)\<rfloor> = 917"
  proof -
    from createPageContainer_dimensions[OF b] obtain page tb vp where
      f: "getPage scaled_doc 1 = Inr page" "tabs sample_state 1 = Some tb"
        "getViewport page (js_or (zoom tb) 1) (js_or (rotation tb) 0) = Inr vp"
      and wr: "\<forall>w. js_times (vp_width vp) (js_or (devicePixelRatio scaled_env) 1) = Some w \<and>
                0 \<le> \<lfloor>w\<rfloor> \<and> \<lfloor>w\<rfloor> \<le> 2147483647 \<longrightarrow> cv_width (pc_canvas pc2) = \<lfloor>w\<rfloor>"
      and hr: "\<forall>h. js_times (vp_height vp) (js_or (devicePixelRatio scaled_env) 1) = Some h \<and>
                0 \<le> \<lfloor>h\<rfloor> \<and> \<lfloor>h\<rfloor> \<le> 2147483647 \<longrightarrow> cv_height (pc_canvas pc2) = \<lfloor>h\<rfloor>"
      and css: "cv_style_width (pc_canvas pc2) = vp_width vp"
      by blast
    have vp: "vp = \<lparr>vp_width = ?w, vp_height = ?h, vp_scale = 3 / 2, vp_rotation = 0\<rparr>"
      using f u(1,2) v(2) by simp
    have "cv_width (pc_canvas pc2) = \<lfloor>918 :: rat\<rfloor>"
      using wr[rule_format, of 918] sample_products(5) by (simp add: vp u(3))
    moreover have "cv_height (pc_canvas pc2) = \<lfloor>1188 :: rat\<rfloor>"
      using hr[rule_format, of 1188] sample_products(6) by (simp add: vp u(3))
    moreover have "\<lfloor>cv_style_width (pc_canvas pc2) * (5 / 4)\<rfloor> = 917"
      unfolding css vp using sample_floors(3) by simp
    ultimately show ?thesis by simp
  qed
  have C: "cv_width (pc_canvas pc3) = 734 \<and> cv_height (pc_canvas pc3) = 950"
  proof -
    let ?ev = "scaled_env\<lparr>devicePixelRatio := None\<rparr>"
    from createPageContainer_dimensions[OF c] obtain page tb vp where
      f: "getPage scaled_doc 1 = Inr page" "tabs sample_state 1 = Some tb"
        "getViewport page (js_or (zoom tb) 1) (js_or (rotation tb) 0) = Inr vp"
      and wr: "\<forall>w. js_times (vp_width vp) (js_or (devicePixelRatio ?ev) 1) = Some w \<and>
                0 \<le> \<lfloor>w\<rfloor> \<and> \<lfloor>w\<rfloor> \<le> 2147483647 \<longrightarrow> cv_width (pc_canvas pc3) = \<lfloor>w\<rfloor>"
      and hr: "\<forall>h. js_times (vp_height vp) (js_or (devicePixelRatio ?ev) 1) = Some h \<and>
                0 \<le> \<lfloor>h\<rfloor> \<and> \<lfloor>h\<rfloor> \<le> 2147483647 \<longrightarrow> cv_height (pc_canvas pc3) = \<lfloor>h\<rfloor>"
      by blast
    have vp: "vp = \<lparr>vp_width = ?w, vp_height = ?h, vp_scale = 3 / 2, vp_rotation = 0\<rparr>"
      using f u(1,2) v(2) by simp
    have "cv_width (pc_canvas pc3) = \<lfloor>?w\<rfloor>"
      using wr[rule_format, of ?w] sample_products(7) sample_floors(1) by (simp add: vp js_or_def)
    moreover have "cv_height (pc_canvas pc3) = \<lfloor>?h\<rfloor>"
      using hr[rule_format, of ?h] sample_products(8) sample_floors(2) by (simp add: vp js_or_def)
    ultimately show ?thesis using sample_floors(1,2) by simp
  qed
  from A B C show ?thesis unfolding a b c by simp
qed

section \<open>renderDocument rebuilds the pages of a tab\<close>

text \<open>
  C1, as the code has it. A render stops at the first page that cannot be built. After
  the broken document (two pages, page 2 is damaged) has been loaded for the tab of the
  sample shell, the tab has a document and a tab-manager entry, and a render of the tab
  ends with the error, one container in the viewer and the page registry as it was.
\<close>

theorem renderDocument_broken_page:
  "map_option numPages (documents (perform broken_env (LoadDocument [37] 1) sample_state) 1)
     = Some 2 \<and>
   tabs (perform broken_env (LoadDocument [37] 1) sample_state) 1 = Some sample_tab \<and>
   fst (renderDocument broken_env 1 (perform broken_env (LoadDocument [37] 1) sample_state))
     = Inl (Error ''Page 2 is damaged'') \<and>
   pageElements
     (snd (renderDocument broken_env 1 (perform broken_env (LoadDocument [37] 1) sample_state))) 1
     = Some [] \<and>
   length (viewer
     (snd (renderDocument broken_env 1 (perform broken_env (LoadDocument [37] 1) sample_state))))
     = 1"
  by (simp add: sample_defs op_defs)

text \<open>
  C1, amended. For a tab with a document and a tab-manager entry whose pages 1 to
  \<open>numPages\<close> can all be built, \<open>renderDocument\<close> succeeds; afterwards the viewer holds
  exactly the new page containers (whatever it held before), there are \<open>numPages\<close> of
  them, numbered 1 to \<open>numPages\<close> in this order, and they are the tab's entry in the page
  registry. The new sequence does not depend on the old one: a render from any other
  page registry and viewer content registers the same pages.
\<close>

theorem renderDocument_rebuilds:
  assumes "documents s tabId = Some doc"
    and "tabs s tabId = Some tb"
    and "\<forall>n. 1 \<le> n \<and> n \<le> numPages doc \<longrightarrow> pageBuilds ev doc tb n"
  shows "\<exists>pages s'.
           renderDocument ev tabId s = (Inr (), s') \<and>
           viewer s' = map PageNode pages \<and>
           length pages = numPages doc \<and>
           map pc_page pages = [1..<Suc (numPages doc)] \<and>
           pageElements s' = (pageElements s)(tabId \<mapsto> pages) \<and>
           (\<forall>old v. pageElements (snd (renderDocument ev tabId
                                          (s\<lparr>pageElements := old, viewer := v\<rparr>))) tabId
                       = Some pages)"
proof -
  let ?lay = "pageLayout tb = ''two-page''"
  let ?s0 = "s\<lparr>viewer := [], two_page_layout := ?lay\<rparr>"
  have "tabs ?s0 tabId = Some tb" using assms(2) by simp
  from renderPages_builds[OF this assms(3), where acc = "[]"]
  obtain pages s1 where
    p: "renderPages ev doc tabId 1 [] ?s0 = (Inr pages, s1)"
       "map pc_page pages = [1..<Suc (numPages doc)]"
       "viewer s1 = map PageNode pages"
    by auto
  let ?s' = "s1\<lparr>pageElements := (pageElements s1)(tabId \<mapsto> pages)\<rparr>"
  have r: "renderDocument ev tabId s = (Inr (), ?s')"
    using assms(1,2) p(1) by (simp add: renderDocument_def)
  have pe: "pageElements s1 = pageElements s"
    using renderPages_fields[OF p(1)] by simp
  have len: "length pages = numPages doc"
    using arg_cong[OF p(2), of length] by simp
  have fresh: "pageElements (snd (renderDocument ev tabId (s\<lparr>pageElements := old, viewer := v\<rparr>)))
                 tabId = Some pages" for old v
  proof -
    let ?t0 = "s\<lparr>pageElements := old, viewer := v\<rparr>\<lparr>viewer := [], two_page_layout := ?lay\<rparr>"
    have "tabs ?t0 = tabs ?s0" by simp
    from renderPages_fst_cong[OF this, of ev doc tabId 1 "[]"] p(1)
    have "fst (renderPages ev doc tabId 1 [] ?t0) = Inr pages" by simp
    then obtain t1 where "renderPages ev doc tabId 1 [] ?t0 = (Inr pages, t1)"
      by (cases "renderPages ev doc tabId 1 [] ?t0") simp
    then show ?thesis using assms(1,2) by (simp add: renderDocument_def)
  qed
  show ?thesis
    using r p(2,3) pe len fresh by (intro exI[of _ pages] exI[of _ ?s']) simp
qed

lemma sample_pageBuilds:
  "\<forall>n. 1 \<le> n \<and> n \<le> numPages sample_doc \<longrightarrow> pageBuilds sample_env sample_doc sample_tab n"
  by (simp add: pageBuilds_def sample_defs js_or_def)

theorem renderDocument_rebuilds_witness:
  "\<exists>pages s'.
      renderDocument sample_env 1 open_state = (Inr (), s') \<and>
      viewer s' = map PageNode pages \<and>
      length pages = 2 \<and>
      map pc_page pages = [1, 2] \<and>
      pageElements s' = [1 \<mapsto> pages]"
proof -
  have d: "documents open_state 1 = Some sample_doc" "tabs open_state 1 = Some sample_tab"
    "numPages sample_doc = 2" "pageElements open_state = [1 \<mapsto> []]"
    by (simp_all add: sample_defs)
  have u: "[1..<Suc 2] = [1, 2]" by (simp add: upt_conv_Cons)
  from renderDocument_rebuilds[OF d(1,2) sample_pageBuilds]
  show ?thesis unfolding d(3,4) u fun_upd_upd
    by (elim exE conjE) (intro exI conjI, assumption+)
qed

section \<open>loadDocument: failure and success\<close>

lemma loadFailed_effects:
  "effects (loadFailed e s) =
     effects s @ [ConsoleError ''Error loading PDF:'' e, Alert (''Error loading PDF: '' @ message e)]"
  by (simp add: loadFailed_def log_effect_def)

lemma registerDocument_documents:
  "documents (registerDocument t d s) = (documents s)(t \<mapsto> d)"
  by (simp add: registerDocument_def log_effect_def)

lemma loadDocument_cases:
  obtains (rejected) e where "getDocument ev data = Inl e"
      "loadDocument ev data t s = (Inl e, loadFailed e s)"
  | (render_failed) n g e s3 where "getDocument ev data = Inr (n, g)"
      "renderDocument ev t (registerDocument t \<lparr>handle = nextHandle s, numPages = n, getPage = g\<rparr> s)
         = (Inl e, s3)"
      "loadDocument ev data t s = (Inl e, loadFailed e s3)"
  | (loaded) n g s3 where "getDocument ev data = Inr (n, g)"
      "renderDocument ev t (registerDocument t \<lparr>handle = nextHandle s, numPages = n, getPage = g\<rparr> s)
         = (Inr (), s3)"
      "loadDocument ev data t s = (Inr \<lparr>handle = nextHandle s, numPages = n, getPage = g\<rparr>, s3)"
proof (cases "getDocument ev data")
  case (Inl e)
  then show ?thesis using rejected by (simp add: loadDocument_def)
next
  case (Inr p)
  obtain n g where p: "p = (n, g)" by (cases p)
  let ?d = "\<lparr>handle = nextHandle s, numPages = n, getPage = g\<rparr>"
  obtain r s3 where r: "renderDocument ev t (registerDocument t ?d s) = (r, s3)"
    by (cases "renderDocument ev t (registerDocument t ?d s)")
  show ?thesis
  proof (cases r)
    case (Inl e)
    with Inr p r render_failed[of n g e s3] show ?thesis by (simp add: loadDocument_def)
  next
    case r2: (Inr u)
    with Inr p r loaded[of n g s3] show ?thesis by (simp add: loadDocument_def)
  qed
qed

text \<open>
  C2. Loading is the \<open>try\<close> block of \<open>loadDocument\<close> (lines 21 to 33): the library reads
  the bytes, the handle is registered and the document is rendered for the first time.
  The call ends with an error \<open>e\<close> exactly when the library rejects the bytes with \<open>e\<close> or
  that first render throws \<open>e\<close>; then the last two effects are the console entry and the
  alert \<open>Error loading PDF: \<close> followed by the message of \<open>e\<close>, and \<open>e\<close> goes to the caller
  (no handle is returned). Otherwise the call returns the handle \<open>d\<close> that the library
  delivered, and \<open>d\<close> is the entry of the tab in the document registry.
\<close>

theorem loadDocument_outcome:
  "(loadDocument ev data tabId s = (Inl e, s') \<longrightarrow>
      (getDocument ev data = Inl e \<or>
       (\<exists>n g. getDocument ev data = Inr (n, g) \<and>
          fst (renderDocument ev tabId
                 (registerDocument tabId \<lparr>handle = nextHandle s, numPages = n, getPage = g\<rparr> s))
            = Inl e)) \<and>
      (\<exists>before. effects s' =
          before @ [ConsoleError ''Error loading PDF:'' e,
                    Alert (''Error loading PDF: '' @ message e)])) \<and>
   (loadDocument ev data tabId s = (Inr d, s') \<longrightarrow>
      getDocument ev data = Inr (numPages d, getPage d) \<and>
      handle d = nextHandle s \<and>
      fst (renderDocument ev tabId (registerDocument tabId d s)) = Inr () \<and>
      documents s' tabId = Some d) \<and>
   (getDocument ev data = Inl e \<longrightarrow>
      loadDocument ev data tabId s = (Inl e, loadFailed e s)) \<and>
   (getDocument ev data = Inr (n, g) \<longrightarrow>
      (case fst (renderDocument ev tabId
                   (registerDocument tabId \<lparr>handle = nextHandle s, numPages = n, getPage = g\<rparr> s)) of
         Inl e' \<Rightarrow> fst (loadDocument ev data tabId s) = Inl e'
       | Inr u \<Rightarrow> fst (loadDocument ev data tabId s)
                    = Inr \<lparr>handle = nextHandle s, numPages = n, getPage = g\<rparr>))"
proof (cases rule: loadDocument_cases[of ev data tabId s])
  case (rejected e')
  then show ?thesis by (auto simp: loadFailed_effects)
next
  case (render_failed n g e' s3)
  then show ?thesis by (auto simp: loadFailed_effects)
next
  case (loaded n g s3)
  have "documents s3 tabId = Some \<lparr>handle = nextHandle s, numPages = n, getPage = g\<rparr>"
    using renderDocument_fields[OF loaded(2)] by (simp add: registerDocument_documents)
  with loaded show ?thesis by auto
qed

theorem loadDocument_outcome_witness:
  "fst (loadDocument sample_env [] 1 sample_state) = Inl (Error ''The PDF file is empty'') \<and>
   effects (snd (loadDocument sample_env [] 1 sample_state)) =
     [ConsoleError ''Error loading PDF:'' (Error ''The PDF file is empty''),
      Alert ''Error loading PDF: The PDF file is empty''] \<and>
   fst (loadDocument broken_env [37] 1 sample_state) = Inl (Error ''Page 2 is damaged'') \<and>
   (\<exists>before. effects (snd (loadDocument broken_env [37] 1 sample_state)) =
      before @ [ConsoleError ''Error loading PDF:'' (Error ''Page 2 is damaged''),
                Alert ''Error loading PDF: Page 2 is damaged'']) \<and>
   fst (loadDocument sample_env [37] 1 sample_state) = Inr sample_doc \<and>
   documents (snd (loadDocument sample_env [37] 1 sample_state)) 1 = Some sample_doc"
proof -
  have a: "getDocument sample_env [] = Inl (Error ''The PDF file is empty'')"
    by (simp add: sample_env_def)
  have e0: "effects sample_state = []" by (simp add: sample_defs)
  obtain s2 where b: "loadDocument broken_env [37] 1 sample_state = (Inl (Error ''Page 2 is damaged''), s2)"
    by (simp add: sample_defs op_defs)
  obtain s3 where c: "loadDocument sample_env [37] 1 sample_state = (Inr sample_doc, s3)"
    by (simp add: sample_defs op_defs)
  from loadDocument_outcome[of sample_env "[]" 1 sample_state "Error ''The PDF file is empty''"] a
  have 1: "loadDocument sample_env [] 1 sample_state
             = (Inl (Error ''The PDF file is empty''), loadFailed (Error ''The PDF file is empty'') sample_state)"
    by simp
  from loadDocument_outcome[of broken_env "[37]" 1 sample_state "Error ''Page 2 is damaged''" s2] b
  have 2: "\<exists>before. effects s2 =
      before @ [ConsoleError ''Error loading PDF:'' (Error ''Page 2 is damaged''),
                Alert ''Error loading PDF: Page 2 is damaged'']"
    by simp
  from loadDocument_outcome[of sample_env "[37]" 1 sample_state _ s3 sample_doc] c
  have 3: "documents s3 1 = Some sample_doc" by simp
  show ?thesis unfolding 1 b c using 2 3 by (simp add: loadFailed_effects e0)
qed

section \<open>The scroll listener\<close>











section \<open>setRotation\<close>

text \<open>The result of \<open>setRotation\<close> is the same for every angle.\<close>

lemma setRotation_ignores_angle: "setRotation ev tabId rot s = setRotation ev tabId rot' s"
  by (simp add: setRotation_def)

text \<open>
  C8. The tab of the sample shell has rotation 0 and a two-page document loaded. After
  \<open>setRotation(1, 90)\<close> its stored rotation is still 0 and both pages have been rendered
  with a viewport of rotation 0: the angle is neither stored nor used by the re-render.
  \<open>setZoom(1, 2)\<close> on the same state stores the zoom 2 in the tab and renders both pages
  at scale 2.
\<close>

theorem setRotation_keeps_stored_rotation:
  "map_option rotation (tabs (perform sample_env (LoadDocument [37] 1) sample_state) 1)
     = Some (Some 0) \<and>
   fst (setRotation sample_env 1 90 (perform sample_env (LoadDocument [37] 1) sample_state))
     = Inr () \<and>
   map_option rotation
     (tabs (snd (setRotation sample_env 1 90
                   (perform sample_env (LoadDocument [37] 1) sample_state))) 1)
     = Some (Some 0) \<and>
   map_option (map (\<lambda>pc. vp_rotation (cv_rendered (pc_canvas pc))))
     (pageElements (snd (setRotation sample_env 1 90
                           (perform sample_env (LoadDocument [37] 1) sample_state))) 1)
     = Some [0, 0] \<and>
   map_option zoom
     (tabs (snd (setZoom sample_env 1 2
                   (perform sample_env (LoadDocument [37] 1) sample_state))) 1)
     = Some (Some 2) \<and>
   map_option (map (\<lambda>pc. vp_scale (cv_rendered (pc_canvas pc))))
     (pageElements (snd (setZoom sample_env 1 2
                           (perform sample_env (LoadDocument [37] 1) sample_state))) 1)
     = Some [2, 2]"
  by (simp add: sample_defs op_defs setRotation_def setZoom_def goToPage_def)

section \<open>Live handles of a tab\<close>

text \<open>
  C4. Two loads for tab 1 in a row: the second replaces the entry of the document
  registry (handle 1) and nothing destroys handle 0, so two handles loaded for the tab are
  live. With \<open>closeDocument\<close> between the loads only handle 1 is live.
\<close>

theorem reload_leaves_two_live_handles:
  "liveHandles (run sample_env [LoadDocument [37] 1, LoadDocument [38] 1] sample_state) 1 = [0, 1] \<and>
   map_option handle
     (documents (run sample_env [LoadDocument [37] 1, LoadDocument [38] 1] sample_state) 1) = Some 1 \<and>
   destroyed (run sample_env [LoadDocument [37] 1, LoadDocument [38] 1] sample_state) = [] \<and>
   liveHandles (run sample_env [LoadDocument [37] 1, CloseDocument 1, LoadDocument [38] 1]
                  sample_state) 1 = [1]"
  by (simp add: sample_defs op_defs liveHandles_def closeDocument_def)

end
